theory Spec2Isabelle
  imports Complex_Main
begin

section \<open>Deployment configurations of the lending protocol\<close>

text \<open>
  The module \<^verbatim>\<open>scripts/deploy_configs.ts\<close> exports three object literals of type
  \<^verbatim>\<open>Config\<close>: \<^verbatim>\<open>testnet\<close>, \<^verbatim>\<open>bombay\<close> and \<^verbatim>\<open>local\<close>. The declaration of
  \<^verbatim>\<open>Config\<close> is not part of the module; the records below have the fields, in the order,
  that the literals have. A property that is \<^verbatim>\<open>undefined\<close> (or absent) in a literal is
  \<open>None\<close>, decimals are the strings the literals hold, block and second counts are
  integers.
\<close>

subsection \<open>Data model\<close>

text \<open>Four of the instantiate messages wrap their fields in one \<^verbatim>\<open>config\<close> object.\<close>

record 'a InitMsg =
  config :: 'a

record GovernanceInitParams =
  address_provider_address :: "string option"
  proposal_voting_period :: int
  proposal_effective_delay :: int
  proposal_expiration_period :: int
  proposal_required_deposit :: string
  proposal_required_quorum :: string
  proposal_required_threshold :: string

record StakingInitParams =
  owner :: "string option"
  address_provider_address :: "string option"
  astroport_factory_address :: "string option"
  astroport_max_spread :: string
  cooldown_duration :: int
  unstake_window :: int

record FeeShareInitParams =
  owner :: "string option"
  astroport_factory_address :: "string option"
  astroport_max_spread :: string

record RewardsCollectorInitParams =
  owner :: "string option"
  address_provider_address :: "string option"
  safety_fund_fee_share :: string
  treasury_fee_share :: string
  astroport_factory_address :: "string option"
  astroport_max_spread :: string

record RedBankInitParams =
  owner :: "string option"
  address_provider_address :: "string option"
  ma_token_code_id :: "int option"
  close_factor :: string

record DynamicInterestRate =
  min_borrow_rate :: string
  max_borrow_rate :: string
  kp_1 :: string
  optimal_utilization_rate :: string
  kp_augmentation_threshold :: string
  kp_2 :: string

datatype InterestRateStrategy = dynamic DynamicInterestRate

record AssetRiskParams =
  initial_borrow_rate :: string
  max_loan_to_value :: string
  reserve_factor :: string
  liquidation_threshold :: string
  liquidation_bonus :: string
  interest_rate_strategy :: InterestRateStrategy
  active :: bool
  deposit_enabled :: bool
  borrow_enabled :: bool

text \<open>
  An asset entry carries either \<^verbatim>\<open>denom\<close> or \<^verbatim>\<open>symbol\<close> and \<^verbatim>\<open>contract_addr\<close>; the
  properties a literal leaves out read as \<^verbatim>\<open>undefined\<close>.
\<close>

record AssetInitEntry =
  denom :: "string option"
  symbol :: "string option"
  contract_addr :: "string option"
  init_params :: AssetRiskParams

record Config =
  councilInitMsg :: "GovernanceInitParams InitMsg"
  stakingInitMsg :: "StakingInitParams InitMsg"
  safetyFundInitMsg :: FeeShareInitParams
  treasuryInitMsg :: FeeShareInitParams
  protocolRewardsCollectorInitMsg :: "RewardsCollectorInitParams InitMsg"
  redBankInitMsg :: "RedBankInitParams InitMsg"
  initialAssets :: "AssetInitEntry list"
  mirFarmingStratContractAddress :: "string option"
  ancFarmingStratContractAddress :: "string option"
  marsFarmingStratContractAddress :: "string option"
  minterProxyContractAddress :: "string option"
  marsTokenContractAddress :: "string option"
  oracleFactoryAddress :: "string option"

subsection \<open>The three literals\<close>

definition testnet :: Config where
  "testnet = \<lparr>
    councilInitMsg = \<lparr>config =
      \<lparr>GovernanceInitParams.address_provider_address = None,
       proposal_voting_period = 20,
       proposal_effective_delay = 0,
       proposal_expiration_period = 115200,
       proposal_required_deposit = ''100000000'',
       proposal_required_quorum = ''0.1'',
       proposal_required_threshold = ''0.5''\<rparr>\<rparr>,
    stakingInitMsg = \<lparr>config =
      \<lparr>StakingInitParams.owner = None,
       StakingInitParams.address_provider_address = None,
       StakingInitParams.astroport_factory_address = Some ''terra18qpjm4zkvqnpjpw0zn0tdr8gdzvt8au35v45xf'',
       StakingInitParams.astroport_max_spread = ''0.05'',
       cooldown_duration = 90,
       unstake_window = 300\<rparr>\<rparr>,
    safetyFundInitMsg =
      \<lparr>FeeShareInitParams.owner = None,
       FeeShareInitParams.astroport_factory_address = Some ''terra18qpjm4zkvqnpjpw0zn0tdr8gdzvt8au35v45xf'',
       FeeShareInitParams.astroport_max_spread = ''0.05''\<rparr>,
    treasuryInitMsg =
      \<lparr>FeeShareInitParams.owner = None,
       FeeShareInitParams.astroport_factory_address = Some ''terra18qpjm4zkvqnpjpw0zn0tdr8gdzvt8au35v45xf'',
       FeeShareInitParams.astroport_max_spread = ''0.05''\<rparr>,
    protocolRewardsCollectorInitMsg = \<lparr>config =
      \<lparr>RewardsCollectorInitParams.owner = None,
       RewardsCollectorInitParams.address_provider_address = None,
       safety_fund_fee_share = ''0.1'',
       treasury_fee_share = ''0.2'',
       RewardsCollectorInitParams.astroport_factory_address = Some ''terra18qpjm4zkvqnpjpw0zn0tdr8gdzvt8au35v45xf'',
       RewardsCollectorInitParams.astroport_max_spread = ''0.05''\<rparr>\<rparr>,
    redBankInitMsg = \<lparr>config =
      \<lparr>RedBankInitParams.owner = None,
       RedBankInitParams.address_provider_address = None,
       ma_token_code_id = None,
       close_factor = ''0.5''\<rparr>\<rparr>,
    initialAssets = [
      \<lparr>denom = Some ''uusd'',
       symbol = None,
       contract_addr = None,
       init_params =
          \<lparr>initial_borrow_rate = ''0.2'',
           max_loan_to_value = ''0.75'',
           reserve_factor = ''0.2'',
           liquidation_threshold = ''0.85'',
           liquidation_bonus = ''0.1'',
           interest_rate_strategy = dynamic
             \<lparr>min_borrow_rate = ''0.0'',
               max_borrow_rate = ''1.0'',
               kp_1 = ''0.04'',
               optimal_utilization_rate = ''0.9'',
               kp_augmentation_threshold = ''0.15'',
               kp_2 = ''0.07''\<rparr>,
           active = True,
           deposit_enabled = True,
           borrow_enabled = True\<rparr>\<rparr>,
      \<lparr>denom = Some ''uluna'',
       symbol = None,
       contract_addr = None,
       init_params =
          \<lparr>initial_borrow_rate = ''0.1'',
           max_loan_to_value = ''0.55'',
           reserve_factor = ''0.2'',
           liquidation_threshold = ''0.65'',
           liquidation_bonus = ''0.1'',
           interest_rate_strategy = dynamic
             \<lparr>min_borrow_rate = ''0.0'',
               max_borrow_rate = ''2.0'',
               kp_1 = ''0.02'',
               optimal_utilization_rate = ''0.7'',
               kp_augmentation_threshold = ''0.15'',
               kp_2 = ''0.05''\<rparr>,
           active = True,
           deposit_enabled = True,
           borrow_enabled = True\<rparr>\<rparr>,
      \<lparr>denom = None,
       symbol = Some ''MIR'',
       contract_addr = Some ''terra10llyp6v3j3her8u3ce66ragytu45kcmd9asj3u'',
       init_params =
          \<lparr>initial_borrow_rate = ''0.07'',
           max_loan_to_value = ''0.45'',
           reserve_factor = ''0.2'',
           liquidation_threshold = ''0.55'',
           liquidation_bonus = ''0.15'',
           interest_rate_strategy = dynamic
             \<lparr>min_borrow_rate = ''0.0'',
               max_borrow_rate = ''2.0'',
               kp_1 = ''0.02'',
               optimal_utilization_rate = ''0.5'',
               kp_augmentation_threshold = ''0.15'',
               kp_2 = ''0.05''\<rparr>,
           active = True,
           deposit_enabled = True,
           borrow_enabled = True\<rparr>\<rparr>,
      \<lparr>denom = None,
       symbol = Some ''ANC'',
       contract_addr = Some ''terra1747mad58h0w4y589y3sk84r5efqdev9q4r02pc'',
       init_params =
          \<lparr>initial_borrow_rate = ''0.07'',
           max_loan_to_value = ''0.35'',
           reserve_factor = ''0.2'',
           liquidation_threshold = ''0.45'',
           liquidation_bonus = ''0.15'',
           interest_rate_strategy = dynamic
             \<lparr>min_borrow_rate = ''0.0'',
               max_borrow_rate = ''2.0'',
               kp_1 = ''0.02'',
               optimal_utilization_rate = ''0.5'',
               kp_augmentation_threshold = ''0.15'',
               kp_2 = ''0.05''\<rparr>,
           active = True,
           deposit_enabled = True,
           borrow_enabled = True\<rparr>\<rparr>,
      \<lparr>denom = None,
       symbol = Some ''MARS'',
       contract_addr = None,
       init_params =
          \<lparr>initial_borrow_rate = ''0.07'',
           max_loan_to_value = ''0.45'',
           reserve_factor = ''0.2'',
           liquidation_threshold = ''0.55'',
           liquidation_bonus = ''0.15'',
           interest_rate_strategy = dynamic
             \<lparr>min_borrow_rate = ''0.0'',
               max_borrow_rate = ''2.0'',
               kp_1 = ''0.02'',
               optimal_utilization_rate = ''0.5'',
               kp_augmentation_threshold = ''0.15'',
               kp_2 = ''0.05''\<rparr>,
           active = True,
           deposit_enabled = True,
           borrow_enabled = True\<rparr>\<rparr>],
    mirFarmingStratContractAddress = None,
    ancFarmingStratContractAddress = None,
    marsFarmingStratContractAddress = None,
    minterProxyContractAddress = None,
    marsTokenContractAddress = None,
    oracleFactoryAddress = Some ''terra18qpjm4zkvqnpjpw0zn0tdr8gdzvt8au35v45xf''\<rparr>"

definition bombay :: Config where
  "bombay = \<lparr>
    councilInitMsg = \<lparr>config =
      \<lparr>GovernanceInitParams.address_provider_address = None,
       proposal_voting_period = 20,
       proposal_effective_delay = 0,
       proposal_expiration_period = 115200,
       proposal_required_deposit = ''100000000'',
       proposal_required_quorum = ''0.1'',
       proposal_required_threshold = ''0.5''\<rparr>\<rparr>,
    stakingInitMsg = \<lparr>config =
      \<lparr>StakingInitParams.owner = None,
       StakingInitParams.address_provider_address = None,
       StakingInitParams.astroport_factory_address = Some ''terra18qpjm4zkvqnpjpw0zn0tdr8gdzvt8au35v45xf'',
       StakingInitParams.astroport_max_spread = ''0.05'',
       cooldown_duration = 90,
       unstake_window = 300\<rparr>\<rparr>,
    safetyFundInitMsg =
      \<lparr>FeeShareInitParams.owner = None,
       FeeShareInitParams.astroport_factory_address = Some ''terra18qpjm4zkvqnpjpw0zn0tdr8gdzvt8au35v45xf'',
       FeeShareInitParams.astroport_max_spread = ''0.05''\<rparr>,
    treasuryInitMsg =
      \<lparr>FeeShareInitParams.owner = None,
       FeeShareInitParams.astroport_factory_address = Some ''terra18qpjm4zkvqnpjpw0zn0tdr8gdzvt8au35v45xf'',
       FeeShareInitParams.astroport_max_spread = ''0.05''\<rparr>,
    protocolRewardsCollectorInitMsg = \<lparr>config =
      \<lparr>RewardsCollectorInitParams.owner = None,
       RewardsCollectorInitParams.address_provider_address = None,
       safety_fund_fee_share = ''0.1'',
       treasury_fee_share = ''0.2'',
       RewardsCollectorInitParams.astroport_factory_address = Some ''terra18qpjm4zkvqnpjpw0zn0tdr8gdzvt8au35v45xf'',
       RewardsCollectorInitParams.astroport_max_spread = ''0.05''\<rparr>\<rparr>,
    redBankInitMsg = \<lparr>config =
      \<lparr>RedBankInitParams.owner = None,
       RedBankInitParams.address_provider_address = None,
       ma_token_code_id = None,
       close_factor = ''0.5''\<rparr>\<rparr>,
    initialAssets = [
      \<lparr>denom = Some ''uusd'',
       symbol = None,
       contract_addr = None,
       init_params =
          \<lparr>initial_borrow_rate = ''0.2'',
           max_loan_to_value = ''0.75'',
           reserve_factor = ''0.2'',
           liquidation_threshold = ''0.85'',
           liquidation_bonus = ''0.1'',
           interest_rate_strategy = dynamic
             \<lparr>min_borrow_rate = ''0.0'',
               max_borrow_rate = ''1.0'',
               kp_1 = ''0.04'',
               optimal_utilization_rate = ''0.9'',
               kp_augmentation_threshold = ''0.15'',
               kp_2 = ''0.07''\<rparr>,
           active = True,
           deposit_enabled = True,
           borrow_enabled = True\<rparr>\<rparr>,
      \<lparr>denom = Some ''uluna'',
       symbol = None,
       contract_addr = None,
       init_params =
          \<lparr>initial_borrow_rate = ''0.1'',
           max_loan_to_value = ''0.55'',
           reserve_factor = ''0.2'',
           liquidation_threshold = ''0.65'',
           liquidation_bonus = ''0.1'',
           interest_rate_strategy = dynamic
             \<lparr>min_borrow_rate = ''0.0'',
               max_borrow_rate = ''2.0'',
               kp_1 = ''0.02'',
               optimal_utilization_rate = ''0.7'',
               kp_augmentation_threshold = ''0.15'',
               kp_2 = ''0.05''\<rparr>,
           active = True,
           deposit_enabled = True,
           borrow_enabled = True\<rparr>\<rparr>,
      \<lparr>denom = None,
       symbol = Some ''MIR'',
       contract_addr = Some ''terra10llyp6v3j3her8u3ce66ragytu45kcmd9asj3u'',
       init_params =
          \<lparr>initial_borrow_rate = ''0.07'',
           max_loan_to_value = ''0.45'',
           reserve_factor = ''0.2'',
           liquidation_threshold = ''0.55'',
           liquidation_bonus = ''0.15'',
           interest_rate_strategy = dynamic
             \<lparr>min_borrow_rate = ''0.0'',
               max_borrow_rate = ''2.0'',
               kp_1 = ''0.02'',
               optimal_utilization_rate = ''0.5'',
               kp_augmentation_threshold = ''0.15'',
               kp_2 = ''0.05''\<rparr>,
           active = True,
           deposit_enabled = True,
           borrow_enabled = True\<rparr>\<rparr>,
      \<lparr>denom = None,
       symbol = Some ''MARS'',
       contract_addr = Some ''terra1qs7h830ud0a4hj72yr8f7jmlppyx7z524f7gw6'',
       init_params =
          \<lparr>initial_borrow_rate = ''0.07'',
           max_loan_to_value = ''0.45'',
           reserve_factor = ''0.2'',
           liquidation_threshold = ''0.55'',
           liquidation_bonus = ''0.15'',
           interest_rate_strategy = dynamic
             \<lparr>min_borrow_rate = ''0.0'',
               max_borrow_rate = ''2.0'',
               kp_1 = ''0.02'',
               optimal_utilization_rate = ''0.5'',
               kp_augmentation_threshold = ''0.15'',
               kp_2 = ''0.05''\<rparr>,
           active = True,
           deposit_enabled = True,
           borrow_enabled = True\<rparr>\<rparr>],
    mirFarmingStratContractAddress = None,
    ancFarmingStratContractAddress = None,
    marsFarmingStratContractAddress = None,
    minterProxyContractAddress = Some ''terra1hfyg0tvuqd5kk4un4luqng2adc88lgt5skxmve'',
    marsTokenContractAddress = Some ''terra1qs7h830ud0a4hj72yr8f7jmlppyx7z524f7gw6'',
    oracleFactoryAddress = Some ''terra18qpjm4zkvqnpjpw0zn0tdr8gdzvt8au35v45xf''\<rparr>"

definition local :: Config where
  "local = \<lparr>
    councilInitMsg = \<lparr>config =
      \<lparr>GovernanceInitParams.address_provider_address = None,
       proposal_voting_period = 1000,
       proposal_effective_delay = 150,
       proposal_expiration_period = 3000,
       proposal_required_deposit = ''100000000'',
       proposal_required_quorum = ''0.1'',
       proposal_required_threshold = ''0.5''\<rparr>\<rparr>,
    stakingInitMsg = \<lparr>config =
      \<lparr>StakingInitParams.owner = None,
       StakingInitParams.address_provider_address = None,
       StakingInitParams.astroport_factory_address = None,
       StakingInitParams.astroport_max_spread = ''0.05'',
       cooldown_duration = 10,
       unstake_window = 300\<rparr>\<rparr>,
    safetyFundInitMsg =
      \<lparr>FeeShareInitParams.owner = None,
       FeeShareInitParams.astroport_factory_address = None,
       FeeShareInitParams.astroport_max_spread = ''0.05''\<rparr>,
    treasuryInitMsg =
      \<lparr>FeeShareInitParams.owner = None,
       FeeShareInitParams.astroport_factory_address = Some ''terra18qpjm4zkvqnpjpw0zn0tdr8gdzvt8au35v45xf'',
       FeeShareInitParams.astroport_max_spread = ''0.05''\<rparr>,
    protocolRewardsCollectorInitMsg = \<lparr>config =
      \<lparr>RewardsCollectorInitParams.owner = None,
       RewardsCollectorInitParams.address_provider_address = None,
       safety_fund_fee_share = ''0.1'',
       treasury_fee_share = ''0.2'',
       RewardsCollectorInitParams.astroport_factory_address = None,
       RewardsCollectorInitParams.astroport_max_spread = ''0.05''\<rparr>\<rparr>,
    redBankInitMsg = \<lparr>config =
      \<lparr>RedBankInitParams.owner = None,
       RedBankInitParams.address_provider_address = None,
       ma_token_code_id = None,
       close_factor = ''0.5''\<rparr>\<rparr>,
    initialAssets = [],
    mirFarmingStratContractAddress = None,
    ancFarmingStratContractAddress = None,
    marsFarmingStratContractAddress = None,
    minterProxyContractAddress = None,
    marsTokenContractAddress = None,
    oracleFactoryAddress = None\<rparr>"

subsection \<open>Decimal strings\<close>

text \<open>
  Modelled from the spec: the reader of decimal strings is not part of the module (the
  contracts that receive the messages parse them). The spec compares decimal strings as
  exact rationals: an optional minus sign, one or more digits, and optionally a point
  followed by one or more digits. Anything else does not parse.
\<close>

definition digit_of :: "char \<Rightarrow> nat option" where
  "digit_of = map_of
     [(CHR ''0'', 0), (CHR ''1'', 1), (CHR ''2'', 2), (CHR ''3'', 3), (CHR ''4'', 4),
      (CHR ''5'', 5), (CHR ''6'', 6), (CHR ''7'', 7), (CHR ''8'', 8), (CHR ''9'', 9)]"

fun digits_value :: "nat \<Rightarrow> string \<Rightarrow> nat option" where
  "digits_value acc [] = Some acc"
| "digits_value acc (c # cs) =
     (case digit_of c of None \<Rightarrow> None | Some d \<Rightarrow> digits_value (10 * acc + d) cs)"

definition parse_digits :: "string \<Rightarrow> nat option" where
  "parse_digits s = (if s = [] then None else digits_value 0 s)"

definition parse_unsigned :: "string \<Rightarrow> rat option" where
  "parse_unsigned s =
     (let whole = takeWhile (\<lambda>c. c \<noteq> CHR ''.'') s;
          rest = dropWhile (\<lambda>c. c \<noteq> CHR ''.'') s
      in case rest of
           [] \<Rightarrow> map_option of_nat (parse_digits whole)
         | _ # fraction \<Rightarrow>
             (case (parse_digits whole, parse_digits fraction) of
                (Some w, Some f) \<Rightarrow> Some (of_nat w + of_nat f / 10 ^ length fraction)
              | _ \<Rightarrow> None))"

definition parse_decimal :: "string \<Rightarrow> rat option" where
  "parse_decimal s =
     (if s \<noteq> [] \<and> hd s = CHR ''-'' then map_option uminus (parse_unsigned (tl s))
      else parse_unsigned s)"

subsection \<open>The registry of environments\<close>

text \<open>
  The module's exported bindings, by name. They are \<^verbatim>\<open>const\<close> bindings, made when the
  module is loaded.
\<close>

type_synonym Registry = "(string \<times> Config) list"

definition registry :: Registry where
  "registry = [(''testnet'', testnet), (''bombay'', bombay), (''local'', local)]"

datatype PathSeg = FieldName string | Index nat

type_synonym FieldPath = "PathSeg list"

datatype error = UnknownEnvironment | Malformed FieldPath

text \<open>
  Modelled from the spec: the lookup \<^verbatim>\<open>getConfig\<close> is not part of the module. The spec
  makes it a pure lookup in the registry, failing with \<^verbatim>\<open>UnknownEnvironment\<close> for an
  identifier that is not registered. The registry is process-wide state; the lookup is
  given the state and hands it back as it found it.
\<close>

definition getConfigFrom :: "Registry \<Rightarrow> string \<Rightarrow> (error + Config) \<times> Registry" where
  "getConfigFrom r environment =
     ((case map_of r environment of None \<Rightarrow> Inl UnknownEnvironment | Some c \<Rightarrow> Inr c), r)"

definition getConfig :: "string \<Rightarrow> error + Config" where
  "getConfig environment = fst (getConfigFrom registry environment)"

subsection \<open>The schema validator\<close>

text \<open>
  Modelled from the spec: \<^verbatim>\<open>validate\<close> is not part of the module. The spec has it walk
  every sub-record and every asset entry, check the invariants of the data model, and
  return success or the ordered list of all \<^verbatim>\<open>(fieldPath, violation)\<close> pairs; it throws
  only for malformed input such as a decimal string that does not parse. The invariants
  checked are those the spec's data model states; the one it leaves open
  (\<^verbatim>\<open>cooldown_duration \<le> unstake_window\<close>) is not checked. An invariant between two
  fields is reported at the field on its greater side, as the spec's example does for
  \<^verbatim>\<open>max_loan_to_value < liquidation_threshold\<close>; the bound on the sum of the two fee
  shares is reported at the record that holds them.
\<close>

datatype Violation = Violation string

datatype ValidationResult = Valid | Invalid "(FieldPath \<times> Violation) list"

type_synonym Findings = "error + (FieldPath \<times> Violation) list"

definition check_count :: "FieldPath \<Rightarrow> int \<Rightarrow> Findings" where
  "check_count p n = Inr (if 0 \<le> n then [] else [(p, Violation ''0 <= value'')])"

definition check_integer_string :: "FieldPath \<Rightarrow> string \<Rightarrow> Findings" where
  "check_integer_string p s =
     (case parse_digits s of None \<Rightarrow> Inl (Malformed p) | Some _ \<Rightarrow> Inr [])"

definition check_decimal :: "FieldPath \<Rightarrow> (rat \<Rightarrow> bool) \<Rightarrow> string \<Rightarrow> string \<Rightarrow> Findings" where
  "check_decimal p ok rule s =
     (case parse_decimal s of
        None \<Rightarrow> Inl (Malformed p)
      | Some x \<Rightarrow> Inr (if ok x then [] else [(p, Violation rule)]))"

definition check_decimals ::
  "FieldPath \<Rightarrow> (rat \<Rightarrow> rat \<Rightarrow> bool) \<Rightarrow> string \<Rightarrow> string \<Rightarrow> string \<Rightarrow> Findings" where
  "check_decimals p rel rule s1 s2 =
     (case (parse_decimal s1, parse_decimal s2) of
        (Some x, Some y) \<Rightarrow> Inr (if rel x y then [] else [(p, Violation rule)])
      | _ \<Rightarrow> Inl (Malformed p))"

text \<open>All checks run, in order; the first malformed field aborts the walk.\<close>

fun all_checks :: "Findings list \<Rightarrow> Findings" where
  "all_checks [] = Inr []"
| "all_checks (Inl e # _) = Inl e"
| "all_checks (Inr vs # cs) =
     (case all_checks cs of Inl e \<Rightarrow> Inl e | Inr ws \<Rightarrow> Inr (vs @ ws))"

definition validate_governance :: "FieldPath \<Rightarrow> GovernanceInitParams \<Rightarrow> Findings" where
  "validate_governance p g = all_checks
     [check_count (p @ [FieldName ''proposal_voting_period'']) (proposal_voting_period g),
      check_count (p @ [FieldName ''proposal_effective_delay'']) (proposal_effective_delay g),
      check_count (p @ [FieldName ''proposal_expiration_period'']) (proposal_expiration_period g),
      Inr (if proposal_effective_delay g < proposal_expiration_period g then []
           else [(p @ [FieldName ''proposal_expiration_period''],
                  Violation ''proposal_effective_delay < proposal_expiration_period'')]),
      check_integer_string (p @ [FieldName ''proposal_required_deposit''])
        (proposal_required_deposit g),
      check_decimal (p @ [FieldName ''proposal_required_quorum''])
        (\<lambda>x. 0 \<le> x \<and> x \<le> 1) ''0 <= value <= 1'' (proposal_required_quorum g),
      check_decimal (p @ [FieldName ''proposal_required_threshold''])
        (\<lambda>x. 0 \<le> x \<and> x \<le> 1) ''0 <= value <= 1'' (proposal_required_threshold g)]"

definition validate_staking :: "FieldPath \<Rightarrow> StakingInitParams \<Rightarrow> Findings" where
  "validate_staking p s = all_checks
     [check_decimal (p @ [FieldName ''astroport_max_spread''])
        (\<lambda>x. 0 \<le> x \<and> x \<le> 1) ''0 <= value <= 1'' (StakingInitParams.astroport_max_spread s),
      check_count (p @ [FieldName ''cooldown_duration'']) (cooldown_duration s),
      check_count (p @ [FieldName ''unstake_window'']) (unstake_window s)]"

definition validate_fee_share :: "FieldPath \<Rightarrow> FeeShareInitParams \<Rightarrow> Findings" where
  "validate_fee_share p f = all_checks
     [check_decimal (p @ [FieldName ''astroport_max_spread''])
        (\<lambda>x. True) [] (FeeShareInitParams.astroport_max_spread f)]"

definition validate_rewards_collector ::
  "FieldPath \<Rightarrow> RewardsCollectorInitParams \<Rightarrow> Findings" where
  "validate_rewards_collector p r = all_checks
     [check_decimal (p @ [FieldName ''safety_fund_fee_share''])
        (\<lambda>x. 0 \<le> x \<and> x \<le> 1) ''0 <= value <= 1'' (safety_fund_fee_share r),
      check_decimal (p @ [FieldName ''treasury_fee_share''])
        (\<lambda>x. 0 \<le> x \<and> x \<le> 1) ''0 <= value <= 1'' (treasury_fee_share r),
      check_decimals p (\<lambda>x y. x + y \<le> 1) ''safety_fund_fee_share + treasury_fee_share <= 1''
        (safety_fund_fee_share r) (treasury_fee_share r),
      check_decimal (p @ [FieldName ''astroport_max_spread''])
        (\<lambda>x. True) [] (RewardsCollectorInitParams.astroport_max_spread r)]"

definition validate_red_bank :: "FieldPath \<Rightarrow> RedBankInitParams \<Rightarrow> Findings" where
  "validate_red_bank p r = all_checks
     [check_decimal (p @ [FieldName ''close_factor''])
        (\<lambda>x. 0 < x \<and> x \<le> 1) ''0 < value <= 1'' (close_factor r)]"

fun validate_strategy :: "FieldPath \<Rightarrow> InterestRateStrategy \<Rightarrow> Findings" where
  "validate_strategy p (dynamic d) = (let q = p @ [FieldName ''dynamic''] in all_checks
     [check_decimal (q @ [FieldName ''min_borrow_rate'']) (\<lambda>x. True) [] (min_borrow_rate d),
      check_decimals (q @ [FieldName ''max_borrow_rate'']) (\<lambda>x y. x \<le> y)
        ''min_borrow_rate <= max_borrow_rate'' (min_borrow_rate d) (max_borrow_rate d),
      check_decimal (q @ [FieldName ''kp_1'']) (\<lambda>x. 0 \<le> x) ''0 <= value'' (kp_1 d),
      check_decimal (q @ [FieldName ''optimal_utilization_rate''])
        (\<lambda>x. 0 < x \<and> x < 1) ''0 < value < 1'' (optimal_utilization_rate d),
      check_decimal (q @ [FieldName ''kp_augmentation_threshold''])
        (\<lambda>x. 0 \<le> x) ''0 <= value'' (kp_augmentation_threshold d),
      check_decimal (q @ [FieldName ''kp_2'']) (\<lambda>x. 0 \<le> x) ''0 <= value'' (kp_2 d)])"

definition validate_risk_params :: "FieldPath \<Rightarrow> AssetRiskParams \<Rightarrow> Findings" where
  "validate_risk_params p r = all_checks
     [check_decimal (p @ [FieldName ''initial_borrow_rate''])
        (\<lambda>x. 0 \<le> x) ''0 <= value'' (initial_borrow_rate r),
      check_decimal (p @ [FieldName ''max_loan_to_value''])
        (\<lambda>x. 0 < x \<and> x < 1) ''0 < value < 1'' (max_loan_to_value r),
      check_decimal (p @ [FieldName ''reserve_factor''])
        (\<lambda>x. 0 \<le> x \<and> x < 1) ''0 <= value < 1'' (reserve_factor r),
      check_decimal (p @ [FieldName ''liquidation_threshold''])
        (\<lambda>x. 0 < x \<and> x < 1) ''0 < value < 1'' (liquidation_threshold r),
      check_decimals (p @ [FieldName ''liquidation_threshold'']) (\<lambda>x y. x < y)
        ''max_loan_to_value < liquidation_threshold''
        (max_loan_to_value r) (liquidation_threshold r),
      check_decimal (p @ [FieldName ''liquidation_bonus''])
        (\<lambda>x. 0 \<le> x) ''0 <= value'' (liquidation_bonus r),
      validate_strategy (p @ [FieldName ''interest_rate_strategy'']) (interest_rate_strategy r)]"

definition validate_asset :: "FieldPath \<Rightarrow> AssetInitEntry \<Rightarrow> Findings" where
  "validate_asset p a = validate_risk_params (p @ [FieldName ''init_params'']) (init_params a)"

definition validate :: "Config \<Rightarrow> error + ValidationResult" where
  "validate c =
     (case all_checks
        ([validate_governance [FieldName ''councilInitMsg'', FieldName ''config'']
            (config (councilInitMsg c)),
          validate_staking [FieldName ''stakingInitMsg'', FieldName ''config'']
            (config (stakingInitMsg c)),
          validate_fee_share [FieldName ''safetyFundInitMsg''] (safetyFundInitMsg c),
          validate_fee_share [FieldName ''treasuryInitMsg''] (treasuryInitMsg c),
          validate_rewards_collector [FieldName ''protocolRewardsCollectorInitMsg'', FieldName ''config'']
            (config (protocolRewardsCollectorInitMsg c)),
          validate_red_bank [FieldName ''redBankInitMsg'', FieldName ''config'']
            (config (redBankInitMsg c))]
         @ map (\<lambda>(i, a). validate_asset [FieldName ''initialAssets'', Index i] a)
             (enumerate 0 (initialAssets c)))
      of Inl e \<Rightarrow> Inl e
       | Inr [] \<Rightarrow> Inr Valid
       | Inr (v # vs) \<Rightarrow> Inr (Invalid (v # vs)))"

text \<open>The edit of the spec's example: one asset entry's liquidation threshold replaced.\<close>

definition with_liquidation_threshold :: "nat \<Rightarrow> string \<Rightarrow> Config \<Rightarrow> Config" where
  "with_liquidation_threshold i v c =
     c\<lparr>initialAssets :=
         map (\<lambda>(j, a). if j = i
                then a\<lparr>init_params := (init_params a)\<lparr>liquidation_threshold := v\<rparr>\<rparr>
                else a)
           (enumerate 0 (initialAssets c))\<rparr>"

text \<open>
  Modelled from the spec: the deployment driver is not part of the module. According to
  the spec it submits one instantiate transaction per asset entry, in the order of the
  list.
\<close>

datatype InstantiateTx = InstantiateAsset AssetInitEntry

definition perAssetInstantiations :: "Config \<Rightarrow> InstantiateTx list" where
  "perAssetInstantiations c = map InstantiateAsset (initialAssets c)"

section \<open>Properties of the configurations\<close>

subsection \<open>Auxiliary facts\<close>

text \<open>The value of every decimal string that occurs in the literals or in the example.\<close>

lemma parse_decimal_literals:
  "parse_decimal ''0.0'' = Some 0"
  "parse_decimal ''0.02'' = Some (2 / 100)"
  "parse_decimal ''0.04'' = Some (4 / 100)"
  "parse_decimal ''0.05'' = Some (5 / 100)"
  "parse_decimal ''0.07'' = Some (7 / 100)"
  "parse_decimal ''0.1'' = Some (1 / 10)"
  "parse_decimal ''0.15'' = Some (15 / 100)"
  "parse_decimal ''0.2'' = Some (2 / 10)"
  "parse_decimal ''0.35'' = Some (35 / 100)"
  "parse_decimal ''0.45'' = Some (45 / 100)"
  "parse_decimal ''0.5'' = Some (5 / 10)"
  "parse_decimal ''0.55'' = Some (55 / 100)"
  "parse_decimal ''0.65'' = Some (65 / 100)"
  "parse_decimal ''0.7'' = Some (7 / 10)"
  "parse_decimal ''0.70'' = Some (70 / 100)"
  "parse_decimal ''0.75'' = Some (75 / 100)"
  "parse_decimal ''0.85'' = Some (85 / 100)"
  "parse_decimal ''0.9'' = Some (9 / 10)"
  "parse_decimal ''1.0'' = Some 1"
  "parse_decimal ''2.0'' = Some 2"
  by (simp_all add: parse_decimal_def parse_unsigned_def parse_digits_def digit_of_def)

lemma parse_required_deposit: "parse_digits ''100000000'' = Some 100000000"
  by (simp add: parse_digits_def digit_of_def)

lemma registry_cases:
  "(e, c) \<in> set registry \<Longrightarrow> c = testnet \<or> c = bombay \<or> c = local"
  by (auto simp: registry_def)

lemma ex_Some_conv:
  "(\<exists>x. a = Some x \<and> P x) \<longleftrightarrow> (case a of None \<Rightarrow> False | Some x \<Rightarrow> P x)"
  by (cases a) auto

lemma ex_Some2_conv:
  "(\<exists>x y. a = Some x \<and> b = Some y \<and> P x y) \<longleftrightarrow>
     (case a of None \<Rightarrow> False | Some x \<Rightarrow> (case b of None \<Rightarrow> False | Some y \<Rightarrow> P x y))"
  by (cases a; cases b) auto

lemmas validate_defs =
  validate_def validate_governance_def validate_staking_def validate_fee_share_def
  validate_rewards_collector_def validate_red_bank_def validate_asset_def
  validate_risk_params_def check_count_def check_integer_string_def check_decimal_def
  check_decimals_def

lemma validate_testnet: "validate testnet = Inr Valid"
  by (simp add: validate_defs testnet_def parse_decimal_literals parse_required_deposit)

lemma validate_testnet_edited:
  "validate (with_liquidation_threshold 0 ''0.70'' testnet) =
     Inr (Invalid
       [([FieldName ''initialAssets'', Index 0, FieldName ''init_params'',
          FieldName ''liquidation_threshold''],
         Violation ''max_loan_to_value < liquidation_threshold'')])"
  by (simp add: validate_defs with_liquidation_threshold_def testnet_def
      parse_decimal_literals parse_required_deposit)

subsection \<open>Loan-to-value and liquidation threshold\<close>

text \<open>
  Claim C1. In each of the three registered environments (\<open>testnet\<close>, \<open>bombay\<close>,
  \<open>local\<close>), every asset entry of the configuration has decimal strings for
  \<open>max_loan_to_value\<close> and \<open>liquidation_threshold\<close> whose exact rational values satisfy
  \<open>max_loan_to_value < liquidation_threshold < 1\<close>.
\<close>

theorem ltv_below_liquidation_threshold:
  assumes "(e, c) \<in> set registry" and "a \<in> set (initialAssets c)"
  shows "\<exists>l t. parse_decimal (max_loan_to_value (init_params a)) = Some l
           \<and> parse_decimal (liquidation_threshold (init_params a)) = Some t
           \<and> l < t \<and> t < 1"
proof -
  let ?ok = "\<lambda>a. case parse_decimal (max_loan_to_value (init_params a)) of
                None \<Rightarrow> False
              | Some l \<Rightarrow> (case parse_decimal (liquidation_threshold (init_params a)) of
                            None \<Rightarrow> False | Some t \<Rightarrow> l < t \<and> t < 1)"
  have "list_all ?ok (initialAssets testnet)"
    by (simp add: testnet_def parse_decimal_literals)
  moreover have "list_all ?ok (initialAssets bombay)"
    by (simp add: bombay_def parse_decimal_literals)
  moreover have "list_all ?ok (initialAssets local)"
    by (simp add: local_def)
  ultimately have "list_all ?ok (initialAssets c)"
    using registry_cases [OF assms(1)] by blast
  with assms(2) have "?ok a"
    by (simp add: list_all_iff)
  then show ?thesis
    unfolding ex_Some2_conv .
qed

text \<open>The first asset entry of \<open>testnet\<close> is such an entry.\<close>

theorem ltv_below_liquidation_threshold_witness:
  "(''testnet'', testnet) \<in> set registry
   \<and> hd (initialAssets testnet) \<in> set (initialAssets testnet)
   \<and> (\<exists>l t. parse_decimal (max_loan_to_value (init_params (hd (initialAssets testnet)))) = Some l
           \<and> parse_decimal (liquidation_threshold (init_params (hd (initialAssets testnet)))) = Some t
           \<and> l < t \<and> t < 1)"
proof -
  have r: "(''testnet'', testnet) \<in> set registry"
    by (simp add: registry_def)
  have m: "hd (initialAssets testnet) \<in> set (initialAssets testnet)"
    by (simp add: testnet_def)
  from r m ltv_below_liquidation_threshold [OF r m] show ?thesis
    by blast
qed

subsection \<open>Looking up an environment\<close>

text \<open>
  Claim C2. \<open>getConfig e\<close> fails, and then with \<open>UnknownEnvironment\<close>, exactly when \<open>e\<close> is
  none of \<open>testnet\<close>, \<open>bombay\<close> and \<open>local\<close>; for each of these three identifiers it
  returns the literal of that name. The identifier \<open>nonexistent\<close> is not registered.
\<close>

theorem getConfig_unknown_iff:
  "(getConfig e = Inl UnknownEnvironment \<longleftrightarrow> e \<notin> {''testnet'', ''bombay'', ''local''})
   \<and> (isl (getConfig e) \<longleftrightarrow> e \<notin> {''testnet'', ''bombay'', ''local''})
   \<and> getConfig ''testnet'' = Inr testnet
   \<and> getConfig ''bombay'' = Inr bombay
   \<and> getConfig ''local'' = Inr local
   \<and> getConfig ''nonexistent'' = Inl UnknownEnvironment"
  by (simp add: getConfig_def getConfigFrom_def registry_def)

subsection \<open>The validation example\<close>

text \<open>
  Claim C3. The \<open>uusd\<close> entry of \<open>testnet\<close> is the first asset entry; its
  \<open>max_loan_to_value\<close> is 0.75, its \<open>liquidation_threshold\<close> 0.85 and its
  \<open>liquidation_bonus\<close> 0.1, and validating the configuration that \<open>getConfig\<close> returns
  for \<open>testnet\<close> succeeds. With that entry's \<open>liquidation_threshold\<close> replaced by 0.70,
  validation fails, and the violation it reports carries the path of that
  \<open>liquidation_threshold\<close> field.
\<close>

theorem testnet_uusd_validation:
  "find (\<lambda>a. denom a = Some ''uusd'') (initialAssets testnet) = Some (initialAssets testnet ! 0)
   \<and> max_loan_to_value (init_params (initialAssets testnet ! 0)) = ''0.75''
   \<and> liquidation_threshold (init_params (initialAssets testnet ! 0)) = ''0.85''
   \<and> liquidation_bonus (init_params (initialAssets testnet ! 0)) = ''0.1''
   \<and> parse_decimal ''0.75'' = Some (75 / 100)
   \<and> parse_decimal ''0.85'' = Some (85 / 100)
   \<and> parse_decimal ''0.1'' = Some (1 / 10)
   \<and> (case getConfig ''testnet'' of Inl err \<Rightarrow> Inl err | Inr c \<Rightarrow> validate c) = Inr Valid
   \<and> liquidation_threshold
        (init_params (initialAssets (with_liquidation_threshold 0 ''0.70'' testnet) ! 0)) = ''0.70''
   \<and> validate (with_liquidation_threshold 0 ''0.70'' testnet) =
       Inr (Invalid
         [([FieldName ''initialAssets'', Index 0, FieldName ''init_params'',
            FieldName ''liquidation_threshold''],
           Violation ''max_loan_to_value < liquidation_threshold'')])"
proof -
  have "getConfig ''testnet'' = Inr testnet"
    by (simp add: getConfig_def getConfigFrom_def registry_def)
  moreover have "find (\<lambda>a. denom a = Some ''uusd'') (initialAssets testnet) = Some (initialAssets testnet ! 0)"
    "max_loan_to_value (init_params (initialAssets testnet ! 0)) = ''0.75''"
    "liquidation_threshold (init_params (initialAssets testnet ! 0)) = ''0.85''"
    "liquidation_bonus (init_params (initialAssets testnet ! 0)) = ''0.1''"
    "liquidation_threshold
        (init_params (initialAssets (with_liquidation_threshold 0 ''0.70'' testnet) ! 0)) = ''0.70''"
    by (simp_all add: testnet_def with_liquidation_threshold_def)
  ultimately show ?thesis
    by (simp add: validate_testnet validate_testnet_edited parse_decimal_literals)
qed

subsection \<open>Interest rate strategies\<close>

text \<open>
  Claim C4. For every interest rate strategy of every asset entry of every registered
  environment, \<open>min_borrow_rate \<le> max_borrow_rate\<close>, \<open>optimal_utilization_rate\<close> lies
  strictly between 0 and 1, and \<open>kp_1\<close>, \<open>kp_2\<close> and \<open>kp_augmentation_threshold\<close> are
  not negative.
\<close>

theorem interest_rate_strategy_bounds:
  assumes "(e, c) \<in> set registry" and "a \<in> set (initialAssets c)"
    and "interest_rate_strategy (init_params a) = dynamic d"
  shows "(\<exists>lo hi. parse_decimal (min_borrow_rate d) = Some lo
            \<and> parse_decimal (max_borrow_rate d) = Some hi \<and> lo \<le> hi)
       \<and> (\<exists>u. parse_decimal (optimal_utilization_rate d) = Some u \<and> 0 < u \<and> u < 1)
       \<and> (\<exists>k. parse_decimal (kp_1 d) = Some k \<and> 0 \<le> k)
       \<and> (\<exists>k. parse_decimal (kp_2 d) = Some k \<and> 0 \<le> k)
       \<and> (\<exists>k. parse_decimal (kp_augmentation_threshold d) = Some k \<and> 0 \<le> k)"
proof -
  let ?goal = "\<lambda>d. (\<exists>lo hi. parse_decimal (min_borrow_rate d) = Some lo
            \<and> parse_decimal (max_borrow_rate d) = Some hi \<and> lo \<le> hi)
       \<and> (\<exists>u. parse_decimal (optimal_utilization_rate d) = Some u \<and> 0 < u \<and> u < 1)
       \<and> (\<exists>k. parse_decimal (kp_1 d) = Some k \<and> 0 \<le> k)
       \<and> (\<exists>k. parse_decimal (kp_2 d) = Some k \<and> 0 \<le> k)
       \<and> (\<exists>k. parse_decimal (kp_augmentation_threshold d) = Some k \<and> 0 \<le> k)"
  let ?ok = "\<lambda>a. case interest_rate_strategy (init_params a) of dynamic d \<Rightarrow> ?goal d"
  have "list_all ?ok (initialAssets testnet)"
    unfolding ex_Some_conv ex_Some2_conv
    by (simp add: testnet_def parse_decimal_literals)
  moreover have "list_all ?ok (initialAssets bombay)"
    unfolding ex_Some_conv ex_Some2_conv
    by (simp add: bombay_def parse_decimal_literals)
  moreover have "list_all ?ok (initialAssets local)"
    by (simp add: local_def)
  ultimately have "list_all ?ok (initialAssets c)"
    using registry_cases [OF assms(1)] by blast
  with assms(2) have "?ok a"
    by (simp add: list_all_iff)
  with assms(3) show ?thesis
    by simp
qed

text \<open>The \<open>uluna\<close> entry of \<open>bombay\<close>, with borrow rates from 0 to 2, is an instance.\<close>

theorem interest_rate_strategy_bounds_witness:
  "(''bombay'', bombay) \<in> set registry
   \<and> (initialAssets bombay ! 1) \<in> set (initialAssets bombay)
   \<and> (\<exists>d. interest_rate_strategy (init_params (initialAssets bombay ! 1)) = dynamic d
        \<and> parse_decimal (min_borrow_rate d) = Some 0
        \<and> parse_decimal (max_borrow_rate d) = Some 2
        \<and> (\<exists>u. parse_decimal (optimal_utilization_rate d) = Some u \<and> 0 < u \<and> u < 1)
        \<and> (\<exists>k. parse_decimal (kp_1 d) = Some k \<and> 0 \<le> k)
        \<and> (\<exists>k. parse_decimal (kp_2 d) = Some k \<and> 0 \<le> k)
        \<and> (\<exists>k. parse_decimal (kp_augmentation_threshold d) = Some k \<and> 0 \<le> k))"
proof -
  obtain d where d: "interest_rate_strategy (init_params (initialAssets bombay ! 1)) = dynamic d"
    by (cases "interest_rate_strategy (init_params (initialAssets bombay ! 1))") blast
  have r: "(''bombay'', bombay) \<in> set registry"
    by (simp add: registry_def)
  have m: "(initialAssets bombay ! 1) \<in> set (initialAssets bombay)"
    by (simp add: bombay_def)
  have v: "parse_decimal (min_borrow_rate d) = Some 0" "parse_decimal (max_borrow_rate d) = Some 2"
    using d by (auto simp: bombay_def parse_decimal_literals)
  from r m d v interest_rate_strategy_bounds [OF r m d] show ?thesis
    by blast
qed

subsection \<open>Fee shares of the rewards collector\<close>

text \<open>
  Claim C5. In every registered environment the rewards collector's
  \<open>safety_fund_fee_share\<close> and \<open>treasury_fee_share\<close> each lie in \<open>[0, 1]\<close>, and their sum
  is at most 1.
\<close>

theorem fee_shares_bounded:
  assumes "(e, c) \<in> set registry"
  shows "\<exists>s t. parse_decimal (safety_fund_fee_share (config (protocolRewardsCollectorInitMsg c))) = Some s
           \<and> parse_decimal (treasury_fee_share (config (protocolRewardsCollectorInitMsg c))) = Some t
           \<and> (0 \<le> s \<and> s \<le> 1 \<and> 0 \<le> t \<and> t \<le> 1 \<and> s + t \<le> 1)"
proof -
  let ?ok = "\<lambda>c. \<exists>s t. parse_decimal (safety_fund_fee_share (config (protocolRewardsCollectorInitMsg c))) = Some s
           \<and> parse_decimal (treasury_fee_share (config (protocolRewardsCollectorInitMsg c))) = Some t
           \<and> (0 \<le> s \<and> s \<le> 1 \<and> 0 \<le> t \<and> t \<le> 1 \<and> s + t \<le> 1)"
  have "?ok testnet"
    unfolding ex_Some2_conv by (simp add: testnet_def parse_decimal_literals)
  moreover have "?ok bombay"
    unfolding ex_Some2_conv by (simp add: bombay_def parse_decimal_literals)
  moreover have "?ok local"
    unfolding ex_Some2_conv by (simp add: local_def parse_decimal_literals)
  ultimately show ?thesis
    using registry_cases [OF assms] by blast
qed

text \<open>The \<open>local\<close> environment is an instance.\<close>

theorem fee_shares_bounded_witness:
  "(''local'', local) \<in> set registry
   \<and> (\<exists>s t. parse_decimal (safety_fund_fee_share (config (protocolRewardsCollectorInitMsg local))) = Some s
           \<and> parse_decimal (treasury_fee_share (config (protocolRewardsCollectorInitMsg local))) = Some t
           \<and> (0 \<le> s \<and> s \<le> 1 \<and> 0 \<le> t \<and> t \<le> 1 \<and> s + t \<le> 1))"
proof -
  have r: "(''local'', local) \<in> set registry"
    by (simp add: registry_def)
  from r fee_shares_bounded [OF r] show ?thesis
    by blast
qed

subsection \<open>Reserve factor and liquidation bonus\<close>

text \<open>
  Claim C6. For every asset entry of every registered environment, \<open>reserve_factor\<close>
  lies in \<open>[0, 1)\<close> and \<open>liquidation_bonus\<close> is not negative.
\<close>

theorem reserve_factor_and_bonus_bounds:
  assumes "(e, c) \<in> set registry" and "a \<in> set (initialAssets c)"
  shows "(\<exists>r. parse_decimal (reserve_factor (init_params a)) = Some r \<and> 0 \<le> r \<and> r < 1)
       \<and> (\<exists>b. parse_decimal (liquidation_bonus (init_params a)) = Some b \<and> 0 \<le> b)"
proof -
  let ?ok = "\<lambda>a. (\<exists>r. parse_decimal (reserve_factor (init_params a)) = Some r \<and> 0 \<le> r \<and> r < 1)
       \<and> (\<exists>b. parse_decimal (liquidation_bonus (init_params a)) = Some b \<and> 0 \<le> b)"
  have "list_all ?ok (initialAssets testnet)"
    unfolding ex_Some_conv by (simp add: testnet_def parse_decimal_literals)
  moreover have "list_all ?ok (initialAssets bombay)"
    unfolding ex_Some_conv by (simp add: bombay_def parse_decimal_literals)
  moreover have "list_all ?ok (initialAssets local)"
    by (simp add: local_def)
  ultimately have "list_all ?ok (initialAssets c)"
    using registry_cases [OF assms(1)] by blast
  with assms(2) show ?thesis
    by (simp add: list_all_iff)
qed

text \<open>The \<open>ANC\<close> entry of \<open>testnet\<close> is an instance.\<close>

theorem reserve_factor_and_bonus_bounds_witness:
  "(''testnet'', testnet) \<in> set registry
   \<and> (initialAssets testnet ! 3) \<in> set (initialAssets testnet)
   \<and> symbol (initialAssets testnet ! 3) = Some ''ANC''
   \<and> (\<exists>r. parse_decimal (reserve_factor (init_params (initialAssets testnet ! 3))) = Some r
         \<and> 0 \<le> r \<and> r < 1)
   \<and> (\<exists>b. parse_decimal (liquidation_bonus (init_params (initialAssets testnet ! 3))) = Some b
         \<and> 0 \<le> b)"
proof -
  have r: "(''testnet'', testnet) \<in> set registry"
    by (simp add: registry_def)
  have m: "(initialAssets testnet ! 3) \<in> set (initialAssets testnet)"
    by (simp add: testnet_def)
  have s: "symbol (initialAssets testnet ! 3) = Some ''ANC''"
    by (simp add: testnet_def)
  from r m s reserve_factor_and_bonus_bounds [OF r m] show ?thesis
    by blast
qed

subsection \<open>Governance parameters\<close>

text \<open>
  Claim C7. In the council's parameters of every registered environment,
  \<open>proposal_effective_delay < proposal_expiration_period\<close>, and
  \<open>proposal_required_quorum\<close> and \<open>proposal_required_threshold\<close> each lie in \<open>[0, 1]\<close>.
\<close>

theorem governance_bounds:
  assumes "(e, c) \<in> set registry"
  shows "proposal_effective_delay (config (councilInitMsg c))
           < proposal_expiration_period (config (councilInitMsg c))
       \<and> (\<exists>q. parse_decimal (proposal_required_quorum (config (councilInitMsg c))) = Some q
             \<and> 0 \<le> q \<and> q \<le> 1)
       \<and> (\<exists>t. parse_decimal (proposal_required_threshold (config (councilInitMsg c))) = Some t
             \<and> 0 \<le> t \<and> t \<le> 1)"
proof -
  let ?ok = "\<lambda>c. proposal_effective_delay (config (councilInitMsg c))
           < proposal_expiration_period (config (councilInitMsg c))
       \<and> (\<exists>q. parse_decimal (proposal_required_quorum (config (councilInitMsg c))) = Some q
             \<and> 0 \<le> q \<and> q \<le> 1)
       \<and> (\<exists>t. parse_decimal (proposal_required_threshold (config (councilInitMsg c))) = Some t
             \<and> 0 \<le> t \<and> t \<le> 1)"
  have "?ok testnet"
    unfolding ex_Some_conv by (simp add: testnet_def parse_decimal_literals)
  moreover have "?ok bombay"
    unfolding ex_Some_conv by (simp add: bombay_def parse_decimal_literals)
  moreover have "?ok local"
    unfolding ex_Some_conv by (simp add: local_def parse_decimal_literals)
  ultimately show ?thesis
    using registry_cases [OF assms] by blast
qed

text \<open>The \<open>local\<close> environment, with a delay of 150 and an expiration of 3000 blocks.\<close>

theorem governance_bounds_witness:
  "(''local'', local) \<in> set registry
   \<and> proposal_effective_delay (config (councilInitMsg local)) = 150
   \<and> proposal_expiration_period (config (councilInitMsg local)) = 3000
   \<and> proposal_effective_delay (config (councilInitMsg local))
           < proposal_expiration_period (config (councilInitMsg local))
   \<and> (\<exists>q. parse_decimal (proposal_required_quorum (config (councilInitMsg local))) = Some q
         \<and> 0 \<le> q \<and> q \<le> 1)
   \<and> (\<exists>t. parse_decimal (proposal_required_threshold (config (councilInitMsg local))) = Some t
         \<and> 0 \<le> t \<and> t \<le> 1)"
proof -
  have r: "(''local'', local) \<in> set registry"
    by (simp add: registry_def)
  have v: "proposal_effective_delay (config (councilInitMsg local)) = 150"
    "proposal_expiration_period (config (councilInitMsg local)) = 3000"
    by (simp_all add: local_def)
  from r v governance_bounds [OF r] show ?thesis
    by blast
qed

subsection \<open>Staking cooldown\<close>

text \<open>
  Claim C9. The staking parameters of the registered environments are a cooldown of 90
  and an unstake window of 300 seconds for \<open>testnet\<close> and for \<open>bombay\<close>, and 10 and 300
  for \<open>local\<close>; so \<open>cooldown_duration \<le> unstake_window\<close> holds in each of them.
\<close>

theorem cooldown_within_unstake_window:
  "map (\<lambda>(e, c). (e, cooldown_duration (config (stakingInitMsg c)),
                     unstake_window (config (stakingInitMsg c)))) registry
     = [(''testnet'', 90, 300), (''bombay'', 90, 300), (''local'', 10, 300)]
   \<and> list_all (\<lambda>(e, c). cooldown_duration (config (stakingInitMsg c))
                          \<le> unstake_window (config (stakingInitMsg c))) registry"
  by (simp add: registry_def testnet_def bombay_def local_def)

subsection \<open>The local environment has no assets\<close>

text \<open>
  Claim C10. \<open>getConfig\<close> returns for \<open>local\<close> a configuration whose list of asset
  entries is empty: every property holds of all its asset entries, and the driver has no
  per-asset instantiate transaction to submit for it.
\<close>

theorem local_has_no_assets:
  "(\<exists>c. getConfig ''local'' = Inr c \<and> initialAssets c = []
        \<and> (\<forall>P. list_all P (initialAssets c))
        \<and> perAssetInstantiations c = [])"
  by (simp add: getConfig_def getConfigFrom_def registry_def local_def
      perAssetInstantiations_def)

end
